theory Spec2Isabelle
  imports Complex_Main
begin

section \<open>CodeCompare: the statistics engine and the ranking rule\<close>

text \<open>
  The model follows \<^verbatim>\<open>src/code_compare/comparer.py\<close> and
  \<^verbatim>\<open>src/code_compare/utils.py\<close>. Python floats are taken as real numbers
  (rounding is not modelled) and Python's unbounded integers as \<open>int\<close>.
  Every exception the code can meet is a value of \<open>exn\<close>; a fallible
  computation returns \<open>exn + 'a\<close> with \<open>Inl\<close> for the raise.
\<close>

datatype exn =
    NameError string
  | StatisticsError string
  | ValueError string
  | ZeroDivisionError

text \<open>\<^verbatim>\<open>str(e)\<close>, as the error report of the timer prints it.\<close>

fun exn_message :: "exn \<Rightarrow> string" where
  "exn_message (NameError n) = ''name '' @ [CHR 0x27] @ n @ [CHR 0x27] @ '' is not defined''"
| "exn_message (StatisticsError m) = m"
| "exn_message (ValueError m) = m"
| "exn_message ZeroDivisionError = ''division by zero''"

subsection \<open>The library functions the engine calls\<close>

text \<open>
  The functions of Python's \<^verbatim>\<open>statistics\<close> module and the built-ins
  \<^verbatim>\<open>min\<close>, \<^verbatim>\<open>max\<close> and float division, with the raises they
  perform on short input written out.
\<close>

definition py_truediv :: "real \<Rightarrow> real \<Rightarrow> exn + real" where
  "py_truediv a b = (if b = 0 then Inl ZeroDivisionError else Inr (a / b))"

definition py_mean :: "real list \<Rightarrow> exn + real" where
  "py_mean data =
     (if length data < 1 then Inl (StatisticsError ''mean requires at least one data point'')
      else Inr (sum_list data / real (length data)))"

definition py_stdev :: "real list \<Rightarrow> exn + real" where
  "py_stdev data =
     (if length data < 2 then Inl (StatisticsError ''stdev requires at least two data points'')
      else (let m = sum_list data / real (length data)
            in Inr (sqrt (sum_list (map (\<lambda>x. (x - m)\<^sup>2) data) / real (length data - 1)))))"

definition py_median :: "real list \<Rightarrow> exn + real" where
  "py_median data =
     (let s = sort data; n = length s
      in if n = 0 then Inl (StatisticsError ''no median for empty data'')
         else if n mod 2 = 1 then Inr (s ! (n div 2))
         else Inr ((s ! (n div 2 - 1) + s ! (n div 2)) / 2))"

text \<open>
  One cut point of \<^verbatim>\<open>statistics.quantiles(data, n=n)\<close> with the default
  method \<^verbatim>\<open>exclusive\<close>: \<open>s\<close> is the sorted data, \<open>ld\<close> its length and
  \<open>i\<close> ranges over \<open>1 .. n - 1\<close>. The index \<open>j\<close> is clamped to \<open>1 .. ld - 1\<close>,
  so both reads are in range once \<open>ld \<ge> 2\<close>.
\<close>

definition quantile_at :: "real list \<Rightarrow> nat \<Rightarrow> nat \<Rightarrow> nat \<Rightarrow> real" where
  "quantile_at s ld n i =
     (let m = ld + 1;
          j0 = i * m div n;
          j = (if j0 < 1 then 1 else if j0 > ld - 1 then ld - 1 else j0);
          delta = int (i * m) - int (j * n)
      in (s ! (j - 1) * real_of_int (int n - delta) + s ! j * real_of_int delta) / real n)"

definition py_quantiles :: "real list \<Rightarrow> nat \<Rightarrow> exn + real list" where
  "py_quantiles data n =
     (if n < 1 then Inl (StatisticsError ''n must be at least 1'')
      else (let s = sort data; ld = length s
            in if ld < 2 then Inl (StatisticsError ''must have at least two data points'')
               else Inr (map (quantile_at s ld n) [1..<n])))"

fun py_min :: "real list \<Rightarrow> exn + real" where
  "py_min [] = Inl (ValueError ''min() arg is an empty sequence'')"
| "py_min (x # xs) = Inr (fold min xs x)"

fun py_max :: "real list \<Rightarrow> exn + real" where
  "py_max [] = Inl (ValueError ''max() arg is an empty sequence'')"
| "py_max (x # xs) = Inr (fold max xs x)"

text \<open>
  Truth value of a list element that is a float or \<^verbatim>\<open>None\<close>:
  \<^verbatim>\<open>None\<close> and \<^verbatim>\<open>0.0\<close> are false.
\<close>

fun truthy :: "real option \<Rightarrow> bool" where
  "truthy None = False"
| "truthy (Some x) = (x \<noteq> 0)"

subsection \<open>\<^verbatim>\<open>_detailed_stats\<close>\<close>

record stats =
  mean :: real
  stdev :: real
  median :: real
  percentile_5 :: "real option"
  percentile_95 :: "real option"
  min_t :: real
  max_t :: real
  count :: nat

text \<open>
  The list \<^verbatim>\<open>percentiles\<close>: the 99 cut points when there are at least
  20 samples, 99 times \<^verbatim>\<open>None\<close> otherwise.
\<close>

definition percentiles_of :: "real list \<Rightarrow> exn + real option list" where
  "percentiles_of data =
     (if length data \<ge> 20
      then (case py_quantiles data 100 of Inl e \<Rightarrow> Inl e | Inr qs \<Rightarrow> Inr (map Some qs))
      else Inr (replicate 99 None))"

text \<open>
  The dictionary is built entry by entry, so the first raise is the one that
  leaves the function: for empty data that of \<^verbatim>\<open>statistics.mean\<close>.
\<close>

definition detailed_stats :: "real list \<Rightarrow> exn + stats" where
  "detailed_stats data =
     (case percentiles_of data of Inl e \<Rightarrow> Inl e | Inr percentiles \<Rightarrow>
      case py_mean data of Inl e \<Rightarrow> Inl e | Inr mean_v \<Rightarrow>
      case (if length data > 1 then py_stdev data else Inr 0) of Inl e \<Rightarrow> Inl e | Inr stdev_v \<Rightarrow>
      case py_median data of Inl e \<Rightarrow> Inl e | Inr median_v \<Rightarrow>
      case py_min data of Inl e \<Rightarrow> Inl e | Inr min_v \<Rightarrow>
      case py_max data of Inl e \<Rightarrow> Inl e | Inr max_v \<Rightarrow>
        Inr \<lparr> mean = mean_v,
              stdev = stdev_v,
              median = median_v,
              percentile_5 = (if truthy (percentiles ! 4) then percentiles ! 4 else None),
              percentile_95 = (if truthy (percentiles ! 94) then percentiles ! 94 else None),
              min_t = min_v,
              max_t = max_v,
              count = length data \<rparr>)"

subsection \<open>\<^verbatim>\<open>_confidence_interval\<close>\<close>

text \<open>The dictionary literal of critical values and \<^verbatim>\<open>dict.get\<close> with a default.\<close>

definition t_table :: "(nat \<times> real) list" where
  "t_table = [(2, 12.71), (3, 4.30), (4, 3.18), (5, 2.78), (6, 2.57),
              (7, 2.45), (8, 2.36), (9, 2.31), (10, 2.26)]"

definition dict_get :: "('k \<times> 'v) list \<Rightarrow> 'k \<Rightarrow> 'v \<Rightarrow> 'v" where
  "dict_get d k dflt = (case map_of d k of None \<Rightarrow> dflt | Some v \<Rightarrow> v)"

definition t_value :: "nat \<Rightarrow> real" where
  "t_value n = (if n > 30 then 1.96 else dict_get t_table n 2.0)"

definition confidence_interval :: "real list \<Rightarrow> real \<Rightarrow> exn + real \<times> real" where
  "confidence_interval data confidence =
     (if data = [] \<or> length data < 2 then Inr (0, 0)
      else case py_mean data of Inl e \<Rightarrow> Inl e | Inr mean_v \<Rightarrow>
           case py_stdev data of Inl e \<Rightarrow> Inl e | Inr stdev_v \<Rightarrow>
             (let n = length data;
                  t = t_value n;
                  margin = t * stdev_v / sqrt (real n)
              in Inr (mean_v - margin, mean_v + margin)))"

text \<open>
  The critical value as the specification words it: the table for \<open>n\<close> from 2 to 10,
  2.0 for any other \<open>n \<le> 30\<close>, 1.96 above 30.
\<close>

definition t_spec :: "nat \<Rightarrow> real" where
  "t_spec n =
     (if n = 2 then 12.71 else if n = 3 then 4.30 else if n = 4 then 3.18
      else if n = 5 then 2.78 else if n = 6 then 2.57 else if n = 7 then 2.45
      else if n = 8 then 2.36 else if n = 9 then 2.31 else if n = 10 then 2.26
      else if n \<le> 30 then 2.0 else 1.96)"

subsection \<open>The ranking rule of \<^verbatim>\<open>compare_execution\<close>\<close>

text \<open>A float that may be \<^verbatim>\<open>float('inf')\<close>.\<close>

datatype pyfloat = Finite real | Infinity

record verdict =
  faster :: string
  slower :: string
  ratio :: pyfloat
  percent :: real

definition relative_performance :: "real \<Rightarrow> real \<Rightarrow> verdict" where
  "relative_performance mean1 mean2 =
     (if mean1 < mean2
      then \<lparr> faster = ''Snippet 1'', slower = ''Snippet 2'',
             ratio = (if mean1 > 0 then Finite (mean2 / mean1) else Infinity),
             percent = (if mean2 > 0 then (1 - mean1 / mean2) * 100 else 0) \<rparr>
      else \<lparr> faster = ''Snippet 2'', slower = ''Snippet 1'',
             ratio = (if mean2 > 0 then Finite (mean1 / mean2) else Infinity),
             percent = (if mean1 > 0 then (1 - mean2 / mean1) * 100 else 0) \<rparr>)"

section \<open>The timer and the comparison\<close>

subsection \<open>Snippets and \<^verbatim>\<open>exec\<close>\<close>

text \<open>
  Source text is abstracted to the name events of a straight-line run: which names a
  statement reads, in evaluation order, and which name it binds. \<^verbatim>\<open>import m\<close>
  binds \<open>m\<close>; \<open>Assign x rs\<close> evaluates an expression reading \<open>rs\<close> and binds \<open>x\<close>;
  \<open>Eval rs\<close> evaluates an expression statement; \<open>Seed k\<close> is the call
  \<^verbatim>\<open>random.seed(k)\<close>. String concatenation of source text is list append.
\<close>

type_synonym name = string

datatype stmt =
    Import name
  | Assign name "name list"
  | Eval "name list"
  | Seed int

type_synonym code = "stmt list"

text \<open>Some of the names every \<^verbatim>\<open>exec\<close> finds in the built-in namespace.\<close>

definition builtins :: "name set" where
  "builtins = {''range'', ''print'', ''len'', ''sum'', ''abs'', ''min'', ''max'', ''int'', ''float''}"

text \<open>
  Name lookup of code run by \<^verbatim>\<open>exec(code, globals, locals)\<close>: locals, then
  globals, then built-ins. A name found in none of them raises \<^verbatim>\<open>NameError\<close>.
\<close>

definition hidden :: "name set \<Rightarrow> name set \<Rightarrow> name \<Rightarrow> bool" where
  "hidden g l n = (n \<notin> l \<and> n \<notin> g \<and> n \<notin> builtins)"

text \<open>
  Running code against globals \<open>g\<close>: the state is the local namespace and the list of
  seeds given to the process-wide generator so far. Bindings go to the locals. What ran
  before a raise stays done.
\<close>

fun run_code :: "name set \<Rightarrow> code \<Rightarrow> name set \<times> int list \<Rightarrow> exn option \<times> name set \<times> int list" where
  "run_code g [] (l, sd) = (None, l, sd)"
| "run_code g (Import m # c) (l, sd) = run_code g c (insert m l, sd)"
| "run_code g (Assign x rs # c) (l, sd) =
     (case find (hidden g l) rs of
        Some n \<Rightarrow> (Some (NameError n), l, sd)
      | None \<Rightarrow> run_code g c (insert x l, sd))"
| "run_code g (Eval rs # c) (l, sd) =
     (case find (hidden g l) rs of
        Some n \<Rightarrow> (Some (NameError n), l, sd)
      | None \<Rightarrow> run_code g c (l, sd))"
| "run_code g (Seed k # c) (l, sd) =
     (case find (hidden g l) [''random''] of
        Some n \<Rightarrow> (Some (NameError n), l, sd)
      | None \<Rightarrow> run_code g c (l, sd @ [k]))"



subsection \<open>The process\<close>

text \<open>
  What the timer touches outside its own object: the collector switch of \<^verbatim>\<open>gc\<close>,
  the redirection of the standard streams, the lines printed, the seeds given to
  \<^verbatim>\<open>random\<close>, and the clock. \<open>clock w k\<close> is the reading that the \<open>k\<close>-th call of
  \<^verbatim>\<open>time.perf_counter\<close> returns. The journal records each \<^verbatim>\<open>exec\<close>
  call with the namespaces it was given and the collector switch at that moment.
\<close>

datatype line =
    Starting int int int int
  | Timing string int
  | ErrorBanner
  | ErrorIn string
  | ErrorDetails string
  | ErrorHint
  | ErrorRule
  | Progress nat real
  | Winner string

datatype event = Exec code "name set" "name set" bool

record world =
  gc_enabled :: bool
  muted :: bool
  console :: "line list"
  seeds :: "int list"
  ticks :: nat
  clock :: "nat \<Rightarrow> real"
  journal :: "event list"

definition print_line :: "line \<Rightarrow> world \<Rightarrow> world" where
  "print_line x w = (if muted w then w else w\<lparr>console := console w @ [x]\<rparr>)"

definition perf_counter :: "world \<Rightarrow> real \<times> world" where
  "perf_counter w = (clock w (ticks w), w\<lparr>ticks := Suc (ticks w)\<rparr>)"

definition py_exec :: "code \<Rightarrow> name set \<Rightarrow> name set \<Rightarrow> world \<Rightarrow> exn option \<times> world" where
  "py_exec c g l w =
     (case run_code g c (l, seeds w) of
        (r, l', sd) \<Rightarrow> (r, w\<lparr>seeds := sd, journal := journal w @ [Exec c g l (gc_enabled w)]\<rparr>))"

subsection \<open>\<^verbatim>\<open>utils.py\<close>: the two context managers\<close>

text \<open>
  The body's outcome, raise or not, is part of its result, and the
  \<^verbatim>\<open>finally\<close> clause runs after it in either case.
\<close>

definition suppress_output :: "(world \<Rightarrow> 'a \<times> world) \<Rightarrow> world \<Rightarrow> 'a \<times> world" where
  "suppress_output body w =
     (let old = muted w;
          (r, w') = body (w\<lparr>muted := True\<rparr>)
      in (r, w'\<lparr>muted := old\<rparr>))"

definition gc_disabled :: "(world \<Rightarrow> 'a \<times> world) \<Rightarrow> world \<Rightarrow> 'a \<times> world" where
  "gc_disabled body w =
     (let was_enabled = gc_enabled w;
          (r, w') = body (w\<lparr>gc_enabled := False\<rparr>)
      in (r, if was_enabled then w'\<lparr>gc_enabled := True\<rparr> else w'))"

subsection \<open>The \<^verbatim>\<open>CodeComparer\<close> object\<close>

record comparer =
  fixed_seed :: int
  setup_code :: code
  code_1 :: code
  source_1 :: string
  code_2 :: code
  source_2 :: string
  measurements_1 :: "real list"
  measurements_2 :: "real list"

definition DEFAULT_SETUP_CODE :: code where
  "DEFAULT_SETUP_CODE = [Import ''time'', Import ''random'']"

definition DEFAULT_CODE_1 :: code where
  "DEFAULT_CODE_1 =
     [Assign ''sleep_duration'' [''random''],
      Eval [''time'', ''sleep_duration'']]"

definition DEFAULT_CODE_2 :: code where
  "DEFAULT_CODE_2 =
     [Assign ''iterations'' [''random''],
      Assign ''result'' [],
      Assign ''i'' [''range'', ''iterations''],
      Assign ''result'' [''result'', ''i'', ''random'']]"

text \<open>
  A file argument is absent, or a base name with the content read from it
  (\<open>None\<close> when \<^verbatim>\<open>_read_file_content\<close> failed).
\<close>

definition load_code_from_source :: "(string \<times> code option) option \<Rightarrow> string \<Rightarrow> code \<Rightarrow> code \<times> string" where
  "load_code_from_source file default_source_name default_code =
     (case file of
        Some (base, Some file_content) \<Rightarrow> (file_content, ''File ('' @ [CHR 0x27] @ base @ [CHR 0x27] @ '')'')
      | Some (base, None) \<Rightarrow> (default_code, default_source_name @ '' (Fallback)'')
      | None \<Rightarrow> (default_code, default_source_name))"

definition init :: "(string \<times> code option) option \<Rightarrow> (string \<times> code option) option \<Rightarrow> code option \<Rightarrow> comparer" where
  "init file_1 file_2 setup =
     (let seed = 42;
          (c1, s1) = load_code_from_source file_1 ''Default Snippet 1'' DEFAULT_CODE_1;
          (c2, s2) = load_code_from_source file_2 ''Default Snippet 2'' DEFAULT_CODE_2
      in \<lparr> fixed_seed = seed,
           setup_code = [Import ''random'', Seed seed]
                          @ (case setup of Some c \<Rightarrow> c | None \<Rightarrow> DEFAULT_SETUP_CODE),
           code_1 = c1, source_1 = s1, code_2 = c2, source_2 = s2,
           measurements_1 = [], measurements_2 = [] \<rparr>)"

subsection \<open>\<^verbatim>\<open>_warmup\<close>\<close>

text \<open>
  \<^verbatim>\<open>range(n)\<close> is empty for \<open>n \<le> 0\<close>, hence \<open>nat n\<close> rounds. Each round runs the
  setup and then the snippet, each with two fresh empty dictionaries. A raise leaves the
  loop and the function.
\<close>

fun warmup_loop :: "nat \<Rightarrow> code \<Rightarrow> code \<Rightarrow> world \<Rightarrow> exn option \<times> world" where
  "warmup_loop 0 code setup w = (None, w)"
| "warmup_loop (Suc k) code setup w =
     (case suppress_output
             (\<lambda>v. case py_exec setup {} {} v of
                     (Some e, v1) \<Rightarrow> (Some e, v1)
                   | (None, v1) \<Rightarrow> py_exec code {} {} v1) w of
        (Some e, w') \<Rightarrow> (Some e, w')
      | (None, w') \<Rightarrow> warmup_loop k code setup w')"

definition warmup :: "code \<Rightarrow> code \<Rightarrow> int \<Rightarrow> world \<Rightarrow> exn option \<times> world" where
  "warmup code setup runs w = warmup_loop (nat runs) code setup w"

subsection \<open>\<^verbatim>\<open>_time_single_snippet\<close>\<close>

text \<open>The inner loop: \<^verbatim>\<open>for _ in range(number): exec(code_to_time, {}, {})\<close>.\<close>

fun exec_loop :: "nat \<Rightarrow> code \<Rightarrow> world \<Rightarrow> exn option \<times> world" where
  "exec_loop 0 code w = (None, w)"
| "exec_loop (Suc k) code w =
     (case py_exec code {} {} w of
        (Some e, w') \<Rightarrow> (Some e, w')
      | (None, w') \<Rightarrow> exec_loop k code w')"

text \<open>
  The repetition loop, over the indices still to run, with the list \<^verbatim>\<open>times\<close>
  so far. \<^verbatim>\<open>local_setup\<close> is built in every round as the source builds it;
  \<^verbatim>\<open>_reset_state\<close> is \<^verbatim>\<open>pass\<close>. The progress callback is taken to
  print one line.
\<close>

fun timing_loop ::
  "comparer \<Rightarrow> code \<Rightarrow> code \<Rightarrow> int \<Rightarrow> (nat \<Rightarrow> real \<Rightarrow> line) option \<Rightarrow> nat list \<Rightarrow> real list
     \<Rightarrow> world \<Rightarrow> (exn + real list) \<times> world" where
  "timing_loop self code setup number on_repeat_end [] timings w = (Inr timings, w)"
| "timing_loop self code setup number on_repeat_end (rep # reps) timings w =
     (let local_setup = setup @ [Seed (fixed_seed self + int rep)];
          (start, w1) = perf_counter w;
          (r, w2) = suppress_output (exec_loop (nat number) code) w1
      in case r of
           Some e \<Rightarrow> (Inl e, w2)
         | None \<Rightarrow>
             (let (finish, w3) = perf_counter w2
              in case (if number > 0 then py_truediv (finish - start) (real_of_int number)
                       else Inr 0) of
                   Inl e \<Rightarrow> (Inl e, w3)
                 | Inr elapsed \<Rightarrow>
                     timing_loop self code setup number on_repeat_end reps (timings @ [elapsed])
                       (case on_repeat_end of
                          Some f \<Rightarrow> print_line (f rep elapsed) w3
                        | None \<Rightarrow> w3)))"

text \<open>The lines of the \<^verbatim>\<open>except Exception as e\<close> handler.\<close>

definition report_error :: "string \<Rightarrow> exn \<Rightarrow> world \<Rightarrow> world" where
  "report_error snippet_name e w =
     print_line ErrorRule
       (print_line ErrorHint
          (print_line (ErrorDetails (exn_message e))
             (print_line (ErrorIn snippet_name)
                (print_line ErrorBanner w))))"

text \<open>
  The result is \<open>Inl e\<close> when an exception leaves the function, \<open>Inr None\<close> for the
  handler's \<^verbatim>\<open>return None, None\<close> and \<open>Inr (Some (mean, stdev))\<close> otherwise.
  The call of \<^verbatim>\<open>_warmup\<close> stands before the \<^verbatim>\<open>try\<close>.
\<close>

definition time_single_snippet ::
  "comparer \<Rightarrow> string \<Rightarrow> code \<Rightarrow> code \<Rightarrow> int \<Rightarrow> int \<Rightarrow> int \<Rightarrow> (nat \<Rightarrow> real \<Rightarrow> line) option
     \<Rightarrow> world \<Rightarrow> (exn + (real \<times> real) option) \<times> comparer \<times> world" where
  "time_single_snippet self snippet_name code_to_time setup repeat number warmup_runs on_repeat_end w =
     (let w0 = print_line (Timing snippet_name repeat) w
      in case warmup code_to_time setup warmup_runs w0 of
           (Some e, w1) \<Rightarrow> (Inl e, self, w1)
         | (None, w1) \<Rightarrow>
            (case gc_disabled
                    (timing_loop self code_to_time setup number on_repeat_end [0..<nat repeat] []) w1 of
               (Inl e, w2) \<Rightarrow> (Inr None, self, report_error snippet_name e w2)
             | (Inr timings, w2) \<Rightarrow>
                (let self' = (if CHR ''1'' \<in> set snippet_name
                              then self\<lparr>measurements_1 := timings\<rparr>
                              else self\<lparr>measurements_2 := timings\<rparr>)
                 in case py_mean timings of
                      Inl e \<Rightarrow> (Inr None, self', report_error snippet_name e w2)
                    | Inr mean_time \<Rightarrow>
                       (case (if length timings > 1 then py_stdev timings else Inr 0) of
                          Inl e \<Rightarrow> (Inr None, self', report_error snippet_name e w2)
                        | Inr stdev_time \<Rightarrow> (Inr (Some (mean_time, stdev_time)), self', w2)))))"

subsection \<open>\<^verbatim>\<open>compare_execution\<close>\<close>

record comparison =
  stats_1 :: stats
  stats_2 :: stats
  confidence_interval_1 :: "real \<times> real"
  confidence_interval_2 :: "real \<times> real"
  relative :: verdict
  total_test_time_seconds :: real

text \<open>
  The two timing runs, the statistics, the ranking. The return values of the timing runs
  are bound and not read again; the statistics come from the two measurement lists of the
  object. Of the report only the first and the last line are kept, and the files written
  are left out.
\<close>

definition compare_execution ::
  "comparer \<Rightarrow> int \<Rightarrow> int \<Rightarrow> int \<Rightarrow> (nat \<Rightarrow> real \<Rightarrow> line) option
     \<Rightarrow> world \<Rightarrow> (exn + comparison) \<times> comparer \<times> world" where
  "compare_execution self num_repetitions num_executions_per_rep warmup_runs on_repeat_end w =
     (let w0 = print_line (Starting num_repetitions num_executions_per_rep warmup_runs (fixed_seed self)) w;
          (total_start, w1) = perf_counter w0
      in case time_single_snippet self ''Snippet 1'' (code_1 self) (setup_code self)
                num_repetitions num_executions_per_rep warmup_runs on_repeat_end w1 of
           (Inl e, self1, w2) \<Rightarrow> (Inl e, self1, w2)
         | (Inr r1, self1, w2) \<Rightarrow>
        (case time_single_snippet self1 ''Snippet 2'' (code_2 self1) (setup_code self1)
                num_repetitions num_executions_per_rep warmup_runs on_repeat_end w2 of
           (Inl e, self2, w3) \<Rightarrow> (Inl e, self2, w3)
         | (Inr r2, self2, w3) \<Rightarrow>
        (let (total_end, w4) = perf_counter w3
         in case detailed_stats (measurements_1 self2) of Inl e \<Rightarrow> (Inl e, self2, w4) | Inr stats1 \<Rightarrow>
            case detailed_stats (measurements_2 self2) of Inl e \<Rightarrow> (Inl e, self2, w4) | Inr stats2 \<Rightarrow>
            case confidence_interval (measurements_1 self2) 0.95 of Inl e \<Rightarrow> (Inl e, self2, w4) | Inr ci1 \<Rightarrow>
            case confidence_interval (measurements_2 self2) 0.95 of Inl e \<Rightarrow> (Inl e, self2, w4) | Inr ci2 \<Rightarrow>
              (let v = relative_performance (mean stats1) (mean stats2)
               in (Inr \<lparr> stats_1 = stats1, stats_2 = stats2,
                         confidence_interval_1 = ci1, confidence_interval_2 = ci2,
                         relative = v,
                         total_test_time_seconds = total_end - total_start \<rparr>,
                   self2, print_line (Winner (faster v)) w4)))))"

text \<open>A fresh process: the collector on, nothing redirected, nothing printed or seeded.\<close>

definition fresh :: "(nat \<Rightarrow> real) \<Rightarrow> world" where
  "fresh clk = \<lparr> gc_enabled = True, muted = False, console = [], seeds = [],
                 ticks = 0, clock = clk, journal = [] \<rparr>"

text \<open>Two sample series, a snippet that binds one name, and a clock, used below.\<close>

definition ramp :: "real list" where
  "ramp = [20, 1, 2, 3, 4, 5, 6, 7, 8, 9, 10, 11, 12, 13, 14, 15, 16, 17, 18, 19]"

definition zeros :: "real list" where
  "zeros = [0, 0, 0, 0, 0, 0, 0, 0, 0, 0, 0, 0, 0, 0, 0, 0, 0, 0, 0, 0]"

definition noop :: code where
  "noop = [Assign ''x'' []]"

definition wall :: "nat \<Rightarrow> real" where
  "wall k = 3 * real k"

section \<open>Properties of the statistics engine\<close>

subsection \<open>Fewer than two samples\<close>

text \<open>
  C4, where it fails: for the empty series \<^verbatim>\<open>_detailed_stats\<close> raises, because
  \<^verbatim>\<open>statistics.mean\<close> is evaluated first and has no value for no data.
\<close>

theorem detailed_stats_empty_raises:
  "detailed_stats [] = Inl (StatisticsError ''mean requires at least one data point'')"
  by (simp add: detailed_stats_def percentiles_of_def py_mean_def)

text \<open>
  C4, amended: for every series with fewer than two samples the confidence interval is
  \<open>(0, 0)\<close> and no exception is raised; for the series with exactly one sample the
  descriptive statistics are produced without an exception, with \<open>stdev = 0\<close>.
\<close>

theorem fewer_than_two_samples:
  "length data < 2 \<Longrightarrow>
     confidence_interval data c = Inr (0, 0) \<and>
     (data \<noteq> [] \<longrightarrow> (\<exists>st. detailed_stats data = Inr st \<and> stdev st = 0 \<and> count st = 1))"
proof -
  assume short: "length data < 2"
  have ci: "confidence_interval data c = Inr (0, 0)"
    using short by (simp add: confidence_interval_def)
  have ds: "\<exists>st. detailed_stats data = Inr st \<and> stdev st = 0 \<and> count st = 1" if "data \<noteq> []"
  proof -
    from short that obtain x where x: "data = [x]"
      by (cases data) auto
    show ?thesis
      by (simp add: x detailed_stats_def percentiles_of_def py_mean_def py_median_def)
  qed
  from ci ds show ?thesis by blast
qed

text \<open>C4, amended, at the one-sample series \<open>[0.25]\<close> and at the empty series.\<close>

theorem fewer_than_two_samples_witness:
  "length [0.25::real] < 2 \<and> confidence_interval [0.25] 0.95 = Inr (0, 0) \<and>
   (\<exists>st. detailed_stats [0.25] = Inr st \<and> stdev st = 0 \<and> count st = 1) \<and>
   length ([]::real list) < 2 \<and> confidence_interval [] 0.95 = Inr (0, 0)"
  using fewer_than_two_samples [of "[0.25]" "0.95"] fewer_than_two_samples [of "[]" "0.95"]
  by simp

subsection \<open>The confidence interval\<close>

lemma t_value_eq_t_spec: "t_value n = t_spec n"
  by (simp add: t_value_def t_spec_def dict_get_def t_table_def)

text \<open>
  C6: with at least two samples, mean and standard deviation exist and the interval is
  \<open>(mean - margin, mean + margin)\<close> with \<open>margin = t(n) * stdev / sqrt n\<close>, where
  \<open>t\<close> is the critical value as the specification tabulates it.
\<close>

theorem confidence_interval_formula:
  "2 \<le> length data \<Longrightarrow>
     \<exists>m s. py_mean data = Inr m \<and> py_stdev data = Inr s \<and>
       confidence_interval data c =
         Inr (m - t_spec (length data) * s / sqrt (real (length data)),
              m + t_spec (length data) * s / sqrt (real (length data)))"
  by (auto simp add: confidence_interval_def py_mean_def py_stdev_def Let_def t_value_eq_t_spec)

text \<open>C6 at the series \<open>[1, 3]\<close>: mean 2, standard deviation \<open>sqrt 2\<close>, margin 12.71.\<close>

theorem confidence_interval_formula_witness:
  "2 \<le> length [1, 3::real] \<and>
   py_mean [1, 3] = Inr 2 \<and> py_stdev [1, 3] = Inr (sqrt 2) \<and> t_spec 2 = 12.71 \<and>
   confidence_interval [1, 3] 0.95 = Inr (2 - 12.71, 2 + 12.71)"
proof -
  have m: "py_mean [1, 3] = Inr 2"
    by (simp add: py_mean_def)
  have s: "py_stdev [1, 3] = Inr (sqrt 2)"
    by (simp add: py_stdev_def Let_def power2_eq_square)
  have t: "t_spec 2 = 12.71" "t_spec (Suc (Suc 0)) = 12.71"
    by (simp_all add: t_spec_def)
  from confidence_interval_formula [of "[1, 3]" "0.95"] m s show ?thesis
    by (simp add: t)
qed

subsection \<open>Percentiles\<close>

lemma py_min_Min: "py_min data = Inr (Min (set data))" if "data \<noteq> []"
proof (cases data)
  case Nil
  then show ?thesis using that by simp
next
  case (Cons x xs)
  then show ?thesis by (simp only: py_min.simps Min.set_eq_fold)
qed

lemma py_max_Max: "py_max data = Inr (Max (set data))" if "data \<noteq> []"
proof (cases data)
  case Nil
  then show ?thesis using that by simp
next
  case (Cons x xs)
  then show ?thesis by (simp only: py_max.simps Max.set_eq_fold)
qed




lemma median_value:
  "data \<noteq> [] \<Longrightarrow>
     py_median data =
       Inr (if length data mod 2 = 1 then sort data ! (length data div 2)
            else (sort data ! (length data div 2 - 1) + sort data ! (length data div 2)) / 2)"
proof -
  assume "data \<noteq> []"
  then have "length (sort data) \<noteq> 0" by simp
  then show ?thesis
    by (simp add: py_median_def Let_def del: length_0_conv)
qed



lemma percentiles_of_long:
  assumes "20 \<le> length data"
  shows "percentiles_of data = Inr (map (\<lambda>i. Some (quantile_at (sort data) (length data) 100 i)) [1..<100])"
  using assms by (simp add: percentiles_of_def py_quantiles_def Let_def comp_def)

lemma detailed_stats_long:
  assumes n: "20 \<le> length data"
  shows "\<exists>m sd md.
     detailed_stats data =
       Inr \<lparr> mean = m, stdev = sd, median = md,
             percentile_5 = (if quantile_at (sort data) (length data) 100 5 \<noteq> 0
                             then Some (quantile_at (sort data) (length data) 100 5) else None),
             percentile_95 = (if quantile_at (sort data) (length data) 100 95 \<noteq> 0
                             then Some (quantile_at (sort data) (length data) 100 95) else None),
             min_t = Min (set data), max_t = Max (set data), count = length data \<rparr> \<and>
     py_median data = Inr md"
proof -
  have ne: "data \<noteq> []" using n by auto
  have p4: "map (\<lambda>i. Some (quantile_at (sort data) (length data) 100 i)) [1..<100] ! 4
              = Some (quantile_at (sort data) (length data) 100 5)"
    by (simp add: nth_map)
  have p94: "map (\<lambda>i. Some (quantile_at (sort data) (length data) 100 i)) [1..<100] ! 94
              = Some (quantile_at (sort data) (length data) 100 95)"
    by (simp add: nth_map)
  obtain md where md: "py_median data = Inr md"
    using median_value [OF ne] by blast
  have mean: "py_mean data = Inr (sum_list data / real (length data))"
    using ne by (simp add: py_mean_def)
  obtain sd where sd: "py_stdev data = Inr sd"
    using n by (simp add: py_stdev_def Let_def)
  have gt1: "1 < length data" using n by simp
  show ?thesis
    unfolding detailed_stats_def percentiles_of_long [OF n] mean sd md
      py_min_Min [OF ne] py_max_Max [OF ne] p4 p94
    using gt1 by simp
qed










text \<open>The statistics of that series: both percentiles are present.\<close>

lemma ramp_percentiles:
  "\<exists>st. detailed_stats ramp = Inr st \<and> percentile_5 st = Some 1.05 \<and> percentile_95 st = Some 19.95
     \<and> median st = 10.5 \<and> min_t st = 1 \<and> max_t st = 20"
  by (simp add: ramp_def detailed_stats_def percentiles_of_def py_quantiles_def quantile_at_def
      py_mean_def py_stdev_def py_median_def Let_def nth_map)

text \<open>
  C9: with at least 20 samples, a computed 5th (95th) percentile equal to 0 is reported as
  absent, and any other value is reported as it is.
\<close>

theorem zero_percentile_absent:
  "20 \<le> length data \<Longrightarrow>
     \<exists>qs st. py_quantiles data 100 = Inr qs \<and> length qs = 99 \<and> detailed_stats data = Inr st \<and>
       (qs ! 4 = 0 \<longrightarrow> percentile_5 st = None) \<and>
       (qs ! 94 = 0 \<longrightarrow> percentile_95 st = None) \<and>
       (qs ! 4 \<noteq> 0 \<longrightarrow> percentile_5 st = Some (qs ! 4)) \<and>
       (qs ! 94 \<noteq> 0 \<longrightarrow> percentile_95 st = Some (qs ! 94))"
proof -
  assume n: "20 \<le> length data"
  have qs: "py_quantiles data 100 = Inr (map (quantile_at (sort data) (length data) 100) [1..<100])"
    using n by (simp add: py_quantiles_def Let_def)
  have q4: "map (quantile_at (sort data) (length data) 100) [1..<100] ! 4
              = quantile_at (sort data) (length data) 100 5"
    by (simp add: nth_map)
  have q94: "map (quantile_at (sort data) (length data) 100) [1..<100] ! 94
              = quantile_at (sort data) (length data) 100 95"
    by (simp add: nth_map)
  obtain st where st: "detailed_stats data = Inr st"
    and p5: "percentile_5 st = (if quantile_at (sort data) (length data) 100 5 \<noteq> 0
                             then Some (quantile_at (sort data) (length data) 100 5) else None)"
    and p95: "percentile_95 st = (if quantile_at (sort data) (length data) 100 95 \<noteq> 0
                             then Some (quantile_at (sort data) (length data) 100 95) else None)"
    using detailed_stats_long [OF n] by force
  show ?thesis
    unfolding qs using st p5 p95 q4 q94 by simp
qed

text \<open>C9 at twenty samples equal to 0: 20 samples, and both percentile fields absent.\<close>

theorem zero_percentile_absent_witness:
  "20 \<le> length zeros \<and>
   (\<exists>st. detailed_stats zeros = Inr st \<and> percentile_5 st = None \<and> percentile_95 st = None)"
proof -
  have q: "py_quantiles zeros 100 = Inr (map (quantile_at (sort zeros) (length zeros) 100) [1..<100])"
    by (simp add: py_quantiles_def Let_def zeros_def)
  have q4: "map (quantile_at (sort zeros) (length zeros) 100) [1..<100] ! 4 = 0"
    by (simp add: nth_map quantile_at_def zeros_def)
  have q94: "map (quantile_at (sort zeros) (length zeros) 100) [1..<100] ! 94 = 0"
    by (simp add: nth_map quantile_at_def zeros_def)
  have len: "20 \<le> length zeros" by (simp add: zeros_def)
  from zero_percentile_absent [OF len] q q4 q94 len show ?thesis
    by auto
qed

subsection \<open>The ranking rule\<close>

text \<open>
  C5, where it fails: on a tie of two means equal to 0 the ratio is infinite, not 1.
\<close>

theorem tie_at_zero_ratio:
  "faster (relative_performance 0 0) = ''Snippet 2'' \<and>
   ratio (relative_performance 0 0) = Infinity \<and>
   ratio (relative_performance 0 0) \<noteq> Finite 1"
  by (simp add: relative_performance_def)

text \<open>
  C5, amended: snippet 1 is the faster one exactly when its mean is strictly smaller;
  the ratio is slower mean over faster mean (at least 1) when the faster mean is positive
  and infinite otherwise; the percentage is \<open>(1 - faster / slower) * 100\<close> when the
  slower mean is positive and 0 otherwise; a tie of positive means gives snippet 2, ratio 1
  and 0 percent; means 10 and 20 give snippet 1, ratio 2 and 50 percent.
\<close>

theorem ranking_rule:
  "(faster (relative_performance a b) = (if a < b then ''Snippet 1'' else ''Snippet 2'')) \<and>
   (slower (relative_performance a b) = (if a < b then ''Snippet 2'' else ''Snippet 1'')) \<and>
   (0 < min a b \<longrightarrow> ratio (relative_performance a b) = Finite (max a b / min a b)
        \<and> 1 \<le> max a b / min a b) \<and>
   (min a b \<le> 0 \<longrightarrow> ratio (relative_performance a b) = Infinity) \<and>
   (0 < max a b \<longrightarrow> percent (relative_performance a b) = (1 - min a b / max a b) * 100) \<and>
   (max a b \<le> 0 \<longrightarrow> percent (relative_performance a b) = 0) \<and>
   (a = b \<and> 0 < a \<longrightarrow> faster (relative_performance a b) = ''Snippet 2'' \<and>
        ratio (relative_performance a b) = Finite 1 \<and> percent (relative_performance a b) = 0) \<and>
   relative_performance 10 20 =
     \<lparr> faster = ''Snippet 1'', slower = ''Snippet 2'', ratio = Finite 2, percent = 50 \<rparr>"
  by (auto simp add: relative_performance_def min_def max_def)

text \<open>C5, amended, at the means \<open>(5, 5)\<close>, \<open>(3, 12)\<close> and \<open>(0, 5)\<close>.\<close>

theorem ranking_rule_witness:
  "faster (relative_performance 5 5) = ''Snippet 2'' \<and>
   ratio (relative_performance 5 5) = Finite 1 \<and>
   percent (relative_performance 5 5) = 0 \<and>
   faster (relative_performance 3 12) = ''Snippet 1'' \<and>
   ratio (relative_performance 3 12) = Finite 4 \<and>
   percent (relative_performance 3 12) = 75 \<and>
   ratio (relative_performance 0 5) = Infinity \<and>
   percent (relative_performance 0 5) = 100"
  using ranking_rule [of 5 5] ranking_rule [of 3 12] ranking_rule [of 0 5] by simp

section \<open>Properties of the timer\<close>

subsection \<open>What each loop leaves unchanged\<close>

lemma run_code_error_is_NameError:
  "run_code g c st = (Some e, st') \<Longrightarrow> \<exists>n. e = NameError n"
  by (induction g c st rule: run_code.induct) (auto split: option.splits if_splits)


lemma py_exec_frame:
  assumes "py_exec c g l w = (r, w')"
  shows "gc_enabled w' = gc_enabled w" "muted w' = muted w" "console w' = console w"
    "ticks w' = ticks w" "clock w' = clock w"
    "journal w' = journal w @ [Exec c g l (gc_enabled w)]"
  using assms by (auto simp: py_exec_def split: prod.splits)

lemma py_exec_error:
  "py_exec c g l w = (Some e, w') \<Longrightarrow> \<exists>n. e = NameError n"
  by (auto simp: py_exec_def split: prod.splits dest: run_code_error_is_NameError)

lemma exec_loop_frame:
  "exec_loop n code w = (r, w') \<Longrightarrow>
     gc_enabled w' = gc_enabled w \<and> muted w' = muted w \<and> console w' = console w \<and>
     ticks w' = ticks w \<and> clock w' = clock w \<and>
     (\<exists>k\<le>n. journal w' = journal w @ replicate k (Exec code {} {} (gc_enabled w)) \<and>
        (r = None \<longrightarrow> k = n)) \<and>
     (\<forall>e. r = Some e \<longrightarrow> (\<exists>m. e = NameError m))"
proof (induction n arbitrary: w)
  case 0
  then show ?case by simp
next
  case (Suc n)
  obtain r1 w1 where ex: "py_exec code {} {} w = (r1, w1)" by (cases "py_exec code {} {} w")
  note f = py_exec_frame [OF ex]
  show ?case
  proof (cases r1)
    case None
    with Suc.prems ex have rest: "exec_loop n code w1 = (r, w')" by simp
    from Suc.IH [OF rest] obtain k where k: "k \<le> n"
      "journal w' = journal w1 @ replicate k (Exec code {} {} (gc_enabled w1))"
      "r = None \<longrightarrow> k = n" by blast
    have j: "journal w' = journal w @ replicate (Suc k) (Exec code {} {} (gc_enabled w))"
      using k(2) f by (simp add: replicate_app_Cons_same)
    have "\<exists>k\<le>Suc n. journal w' = journal w @ replicate k (Exec code {} {} (gc_enabled w)) \<and>
        (r = None \<longrightarrow> k = Suc n)"
      using j k(1) k(3) by (intro exI [of _ "Suc k"]) simp
    then show ?thesis using Suc.IH [OF rest] f by simp
  next
    case (Some e)
    with Suc.prems ex have eq: "r = Some e" "w' = w1" by simp_all
    have "\<exists>k\<le>Suc n. journal w' = journal w @ replicate k (Exec code {} {} (gc_enabled w)) \<and>
        (r = None \<longrightarrow> k = Suc n)"
      using f eq by (intro exI [of _ "Suc 0"]) simp
    moreover have "\<exists>m. e = NameError m" using py_exec_error ex Some by blast
    ultimately show ?thesis using f eq by simp
  qed
qed

lemma suppress_exec_loop_frame:
  assumes "suppress_output (exec_loop n code) w = (r, w')"
  shows "gc_enabled w' = gc_enabled w \<and> muted w' = muted w \<and> console w' = console w \<and>
     ticks w' = ticks w \<and> clock w' = clock w \<and>
     (\<exists>k\<le>n. journal w' = journal w @ replicate k (Exec code {} {} (gc_enabled w)) \<and>
        (r = None \<longrightarrow> k = n)) \<and>
     (\<forall>e. r = Some e \<longrightarrow> (\<exists>m. e = NameError m))"
proof -
  obtain r1 w1 where b: "exec_loop n code (w\<lparr>muted := True\<rparr>) = (r1, w1)"
    by (cases "exec_loop n code (w\<lparr>muted := True\<rparr>)")
  from assms b have eq: "r = r1" "w' = w1\<lparr>muted := muted w\<rparr>"
    by (simp_all add: suppress_output_def Let_def)
  from exec_loop_frame [OF b] show ?thesis
    unfolding eq by simp
qed


lemma print_line_frame:
  "gc_enabled (print_line x w) = gc_enabled w" "muted (print_line x w) = muted w"
  "ticks (print_line x w) = ticks w" "clock (print_line x w) = clock w"
  "journal (print_line x w) = journal w" "seeds (print_line x w) = seeds w"
  by (simp_all add: print_line_def)

lemma timing_loop_frame:
  "timing_loop self code setup number cb reps ts w = (r, w') \<Longrightarrow>
     gc_enabled w' = gc_enabled w \<and> muted w' = muted w \<and> clock w' = clock w \<and>
     (\<exists>k\<le>length reps * nat number.
        journal w' = journal w @ replicate k (Exec code {} {} (gc_enabled w)) \<and>
        (\<forall>ts'. r = Inr ts' \<longrightarrow> k = length reps * nat number)) \<and>
     (\<forall>e. r = Inl e \<longrightarrow> (\<exists>m. e = NameError m)) \<and>
     (\<forall>ts'. r = Inr ts' \<longrightarrow>
        ticks w' = ticks w + 2 * length reps \<and>
        ts' = ts @ map (\<lambda>i. if number > 0
                              then (clock w (ticks w + 2 * i + 1) - clock w (ticks w + 2 * i))
                                     / real_of_int number
                              else 0) [0..<length reps])"
proof (induction reps arbitrary: ts w)
  case Nil
  then show ?case by auto
next
  case (Cons rep reps)
  let ?ev = "Exec code {} {} (gc_enabled w)"
  let ?f = "\<lambda>v i. if number > 0
                then (clock v (ticks v + 2 * i + 1) - clock v (ticks v + 2 * i)) / real_of_int number
                else 0"
  define w1 where "w1 = w\<lparr>ticks := Suc (ticks w)\<rparr>"
  obtain r1 w2 where sup: "suppress_output (exec_loop (nat number) code) w1 = (r1, w2)"
    by (cases "suppress_output (exec_loop (nat number) code) w1")
  from suppress_exec_loop_frame [OF sup] obtain k1 where
    f2: "gc_enabled w2 = gc_enabled w" "muted w2 = muted w" "ticks w2 = Suc (ticks w)"
        "clock w2 = clock w"
    and k1: "k1 \<le> nat number" "journal w2 = journal w @ replicate k1 ?ev" "r1 = None \<longrightarrow> k1 = nat number"
    and e1: "\<forall>e. r1 = Some e \<longrightarrow> (\<exists>m. e = NameError m)"
    by (auto simp: w1_def)
  show ?case
  proof (cases r1)
    case (Some e)
    with Cons.prems have eq: "r = Inl e" "w' = w2"
      by (simp_all add: perf_counter_def Let_def sup [unfolded w1_def])
    have "k1 \<le> length (rep # reps) * nat number" using k1(1) by simp
    then have "\<exists>k\<le>length (rep # reps) * nat number.
        journal w' = journal w @ replicate k ?ev \<and>
        (\<forall>ts'. r = Inr ts' \<longrightarrow> k = length (rep # reps) * nat number)"
      using k1(2) eq by (intro exI [of _ k1]) simp
    then show ?thesis using f2 e1 eq Some by simp
  next
    case None
    define el where "el = ?f w 0"
    define w3 where "w3 = w2\<lparr>ticks := Suc (ticks w2)\<rparr>"
    define w4 where "w4 = (case cb of Some f \<Rightarrow> print_line (f rep el) w3 | None \<Rightarrow> w3)"
    have div: "(if number > 0 then py_truediv (clock w2 (ticks w2) - clock w (ticks w)) (real_of_int number)
                else Inr 0) = Inr el"
      by (simp add: py_truediv_def el_def f2)
    have rest: "timing_loop self code setup number cb reps (ts @ [el]) w4 = (r, w')"
      unfolding w4_def w3_def using Cons.prems
      by (simp add: perf_counter_def Let_def sup [unfolded w1_def] None div)
    have f4: "gc_enabled w4 = gc_enabled w" "muted w4 = muted w" "ticks w4 = ticks w + 2"
        "clock w4 = clock w" "journal w4 = journal w2"
      using f2 by (simp_all add: w4_def w3_def print_line_frame split: option.splits)
    from Cons.IH [OF rest] obtain k where
      g: "gc_enabled w' = gc_enabled w" "muted w' = muted w" "clock w' = clock w"
      and k: "k \<le> length reps * nat number" "journal w' = journal w4 @ replicate k ?ev"
        "\<forall>ts'. r = Inr ts' \<longrightarrow> k = length reps * nat number"
      and e: "\<forall>e. r = Inl e \<longrightarrow> (\<exists>m. e = NameError m)"
      and t: "\<forall>ts'. r = Inr ts' \<longrightarrow>
        ticks w' = ticks w4 + 2 * length reps \<and>
        ts' = (ts @ [el]) @ map (?f w4) [0..<length reps]"
      using f4 by auto
    have k1n: "k1 = nat number" using k1(3) None by simp
    have j: "journal w' = journal w @ replicate (k1 + k) ?ev"
      using k(2) f4(5) k1(2) by (simp add: replicate_add)
    have jk: "\<exists>k\<le>length (rep # reps) * nat number.
        journal w' = journal w @ replicate k ?ev \<and>
        (\<forall>ts'. r = Inr ts' \<longrightarrow> k = length (rep # reps) * nat number)"
      using j k(1) k(3) k1n by (intro exI [of _ "k1 + k"]) auto
    have shift: "map (?f w4) [0..<length reps] = map (\<lambda>i. ?f w (Suc i)) [0..<length reps]"
      using f4 by simp
    have tt: "\<forall>ts'. r = Inr ts' \<longrightarrow>
        ticks w' = ticks w + 2 * length (rep # reps) \<and>
        ts' = ts @ map (?f w) [0..<length (rep # reps)]"
    proof (intro allI impI)
      fix ts' assume r: "r = Inr ts'"
      from t r have a: "ticks w' = ticks w4 + 2 * length reps"
        and b: "ts' = (ts @ [el]) @ map (?f w4) [0..<length reps]" by auto
      have "map (?f w) [0..<length (rep # reps)] = ?f w 0 # map (\<lambda>i. ?f w (Suc i)) [0..<length reps]"
        unfolding length_Cons by (rule map_upt_Suc)
      then show "ticks w' = ticks w + 2 * length (rep # reps) \<and>
        ts' = ts @ map (?f w) [0..<length (rep # reps)]"
        using a b f4(3) shift by (simp add: el_def)
    qed
    show ?thesis using g jk e tt by blast
  qed
qed


lemma warmup_round_frame:
  assumes "suppress_output
             (\<lambda>v. case py_exec setup {} {} v of
                     (Some e, v1) \<Rightarrow> (Some e, v1)
                   | (None, v1) \<Rightarrow> py_exec code {} {} v1) w = (r, w')"
  shows "gc_enabled w' = gc_enabled w \<and> muted w' = muted w \<and> console w' = console w \<and>
     ticks w' = ticks w \<and> clock w' = clock w \<and>
     (\<exists>evs. journal w' = journal w @ evs \<and>
        (\<forall>ev\<in>set evs. \<exists>c. ev = Exec c {} {} (gc_enabled w) \<and> (c = code \<or> c = setup))) \<and>
     (\<forall>e. r = Some e \<longrightarrow> (\<exists>m. e = NameError m))"
proof -
  let ?v = "w\<lparr>muted := True\<rparr>"
  obtain r1 v1 where a: "py_exec setup {} {} ?v = (r1, v1)"
    by (cases "py_exec setup {} {} ?v")
  note fa = py_exec_frame [OF a]
  show ?thesis
  proof (cases r1)
    case (Some e)
    with assms a have eq: "r = Some e" "w' = v1\<lparr>muted := muted w\<rparr>"
      by (simp_all add: suppress_output_def Let_def)
    have "\<exists>m. e = NameError m" using py_exec_error a Some by blast
    moreover have "\<exists>evs. journal w' = journal w @ evs \<and>
        (\<forall>ev\<in>set evs. \<exists>c. ev = Exec c {} {} (gc_enabled w) \<and> (c = code \<or> c = setup))"
      using fa eq by (intro exI [of _ "[Exec setup {} {} (gc_enabled w)]"]) simp
    ultimately show ?thesis using fa eq by simp
  next
    case None
    obtain r2 v2 where b: "py_exec code {} {} v1 = (r2, v2)"
      by (cases "py_exec code {} {} v1")
    note fb = py_exec_frame [OF b]
    from assms a b None have eq: "r = r2" "w' = v2\<lparr>muted := muted w\<rparr>"
      by (simp_all add: suppress_output_def Let_def)
    have "\<forall>e. r = Some e \<longrightarrow> (\<exists>m. e = NameError m)"
      using py_exec_error b eq by blast
    moreover have "\<exists>evs. journal w' = journal w @ evs \<and>
        (\<forall>ev\<in>set evs. \<exists>c. ev = Exec c {} {} (gc_enabled w) \<and> (c = code \<or> c = setup))"
      using fa fb eq
      by (intro exI [of _ "[Exec setup {} {} (gc_enabled w), Exec code {} {} (gc_enabled w)]"]) simp
    ultimately show ?thesis using fa fb eq by simp
  qed
qed

lemma warmup_loop_frame:
  "warmup_loop n code setup w = (r, w') \<Longrightarrow>
     gc_enabled w' = gc_enabled w \<and> muted w' = muted w \<and> console w' = console w \<and>
     ticks w' = ticks w \<and> clock w' = clock w \<and>
     (\<exists>evs. journal w' = journal w @ evs \<and>
        (\<forall>ev\<in>set evs. \<exists>c. ev = Exec c {} {} (gc_enabled w) \<and> (c = code \<or> c = setup))) \<and>
     (\<forall>e. r = Some e \<longrightarrow> (\<exists>m. e = NameError m))"
proof (induction n arbitrary: w)
  case 0
  then show ?case by simp
next
  case (Suc n)
  let ?round = "suppress_output
             (\<lambda>v. case py_exec setup {} {} v of
                     (Some e, v1) \<Rightarrow> (Some e, v1)
                   | (None, v1) \<Rightarrow> py_exec code {} {} v1)"
  obtain r1 w1 where a: "?round w = (r1, w1)" by (cases "?round w")
  from warmup_round_frame [OF a] obtain evs1 where
    f: "gc_enabled w1 = gc_enabled w" "muted w1 = muted w" "console w1 = console w"
       "ticks w1 = ticks w" "clock w1 = clock w"
    and j1: "journal w1 = journal w @ evs1"
       "\<forall>ev\<in>set evs1. \<exists>c. ev = Exec c {} {} (gc_enabled w) \<and> (c = code \<or> c = setup)"
    and e1: "\<forall>e. r1 = Some e \<longrightarrow> (\<exists>m. e = NameError m)"
    by blast
  show ?case
  proof (cases r1)
    case (Some e)
    with Suc.prems a have eq: "r = Some e" "w' = w1" by simp_all
    show ?thesis using f j1 e1 Some eq by auto
  next
    case None
    with Suc.prems a have rest: "warmup_loop n code setup w1 = (r, w')" by simp
    from Suc.IH [OF rest] obtain evs2 where
      g: "gc_enabled w' = gc_enabled w1" "muted w' = muted w1" "console w' = console w1"
         "ticks w' = ticks w1" "clock w' = clock w1"
      and j2: "journal w' = journal w1 @ evs2"
         "\<forall>ev\<in>set evs2. \<exists>c. ev = Exec c {} {} (gc_enabled w1) \<and> (c = code \<or> c = setup)"
      and e2: "\<forall>e. r = Some e \<longrightarrow> (\<exists>m. e = NameError m)"
      by blast
    have "\<exists>evs. journal w' = journal w @ evs \<and>
        (\<forall>ev\<in>set evs. \<exists>c. ev = Exec c {} {} (gc_enabled w) \<and> (c = code \<or> c = setup))"
      using j1 j2 f(1) by (intro exI [of _ "evs1 @ evs2"]) auto
    then show ?thesis using f g e2 by simp
  qed
qed

lemma measured_block_frame:
  assumes "gc_disabled (timing_loop self code setup number cb reps ts) w = (r, w')"
  shows "gc_enabled w' = gc_enabled w" "muted w' = muted w" "clock w' = clock w"
    "\<exists>k\<le>length reps * nat number.
        journal w' = journal w @ replicate k (Exec code {} {} False) \<and>
        (\<forall>ts'. r = Inr ts' \<longrightarrow> k = length reps * nat number)"
    "\<forall>e. r = Inl e \<longrightarrow> (\<exists>m. e = NameError m)"
    "\<forall>ts'. r = Inr ts' \<longrightarrow>
        ts' = ts @ map (\<lambda>i. if number > 0
                              then (clock w (ticks w + 2 * i + 1) - clock w (ticks w + 2 * i))
                                     / real_of_int number
                              else 0) [0..<length reps]"
proof -
  let ?v = "w\<lparr>gc_enabled := False\<rparr>"
  obtain r1 v1 where b: "timing_loop self code setup number cb reps ts ?v = (r1, v1)"
    by (cases "timing_loop self code setup number cb reps ts ?v")
  from assms b have eq: "r = r1" "w' = (if gc_enabled w then v1\<lparr>gc_enabled := True\<rparr> else v1)"
    by (simp_all add: gc_disabled_def Let_def)
  note f = timing_loop_frame [OF b]
  show "gc_enabled w' = gc_enabled w" using f eq by simp
  show "muted w' = muted w" using f eq by simp
  show "clock w' = clock w" using f eq by simp
  show "\<exists>k\<le>length reps * nat number.
        journal w' = journal w @ replicate k (Exec code {} {} False) \<and>
        (\<forall>ts'. r = Inr ts' \<longrightarrow> k = length reps * nat number)"
    using f eq by simp
  show "\<forall>e. r = Inl e \<longrightarrow> (\<exists>m. e = NameError m)" using f eq by simp
  show "\<forall>ts'. r = Inr ts' \<longrightarrow>
        ts' = ts @ map (\<lambda>i. if number > 0
                              then (clock w (ticks w + 2 * i + 1) - clock w (ticks w + 2 * i))
                                     / real_of_int number
                              else 0) [0..<length reps]"
    using f eq by (simp cong: if_cong)
qed

subsection \<open>A whole timing run\<close>

lemma report_error_frame:
  "gc_enabled (report_error nm e w) = gc_enabled w" "clock (report_error nm e w) = clock w"
  "journal (report_error nm e w) = journal w" "seeds (report_error nm e w) = seeds w"
  by (simp_all add: report_error_def print_line_frame)


lemma time_single_snippet_frame:
  assumes run: "time_single_snippet self nm code setup repeat number warmup_runs cb w = (r, self', w')"
  shows "gc_enabled w' = gc_enabled w"
    and "\<exists>evs. journal w' = journal w @ evs \<and>
           (\<forall>ev\<in>set evs. \<exists>c gc. ev = Exec c {} {} gc \<and> (c = code \<or> c = setup))"
    and "r \<noteq> Inl ZeroDivisionError"
    and "\<forall>m. r = Inr (Some m) \<longrightarrow>
          (if CHR ''1'' \<in> set nm then measurements_1 self' else measurements_2 self') =
          map (\<lambda>i. if number > 0
                     then (clock w (ticks w + 2 * i + 1) - clock w (ticks w + 2 * i))
                            / real_of_int number
                     else 0) [0..<nat repeat]"
proof -
  define w0 where "w0 = print_line (Timing nm repeat) w"
  obtain r1 w1 where wu: "warmup_loop (nat warmup_runs) code setup w0 = (r1, w1)"
    by (cases "warmup_loop (nat warmup_runs) code setup w0")
  from warmup_loop_frame [OF wu] obtain evs1 where
    f1: "gc_enabled w1 = gc_enabled w" "ticks w1 = ticks w" "clock w1 = clock w"
    and j1: "journal w1 = journal w @ evs1"
      "\<forall>ev\<in>set evs1. \<exists>c. ev = Exec c {} {} (gc_enabled w) \<and> (c = code \<or> c = setup)"
    and e1: "\<forall>e. r1 = Some e \<longrightarrow> (\<exists>m. e = NameError m)"
    by (auto simp: w0_def print_line_frame)
  have goal: "gc_enabled w' = gc_enabled w \<and>
     (\<exists>evs. journal w' = journal w @ evs \<and>
           (\<forall>ev\<in>set evs. \<exists>c gc. ev = Exec c {} {} gc \<and> (c = code \<or> c = setup))) \<and>
     r \<noteq> Inl ZeroDivisionError \<and>
     (\<forall>m. r = Inr (Some m) \<longrightarrow>
          (if CHR ''1'' \<in> set nm then measurements_1 self' else measurements_2 self') =
          map (\<lambda>i. if number > 0
                     then (clock w (ticks w + 2 * i + 1) - clock w (ticks w + 2 * i))
                            / real_of_int number
                     else 0) [0..<nat repeat])"
  proof (cases r1)
    case (Some e)
    with run wu have eq: "r = Inl e" "w' = w1"
      by (simp_all add: time_single_snippet_def warmup_def Let_def w0_def)
    have "\<exists>evs. journal w' = journal w @ evs \<and>
           (\<forall>ev\<in>set evs. \<exists>c gc. ev = Exec c {} {} gc \<and> (c = code \<or> c = setup))"
      using j1 eq by (intro exI [of _ evs1]) auto
    moreover have "r \<noteq> Inl ZeroDivisionError" using e1 Some eq by auto
    ultimately show ?thesis using f1 eq by simp
  next
    case None
    let ?block = "gc_disabled (timing_loop self code setup number cb [0..<nat repeat] [])"
    obtain q w2 where blk: "?block w1 = (q, w2)" by (cases "?block w1")
    note m = measured_block_frame [OF blk]
    from m(4) obtain k where
      j2: "journal w2 = journal w1 @ replicate k (Exec code {} {} False)" by blast
    have jr: "\<And>v. journal v = journal w2 \<Longrightarrow> \<exists>evs. journal v = journal w @ evs \<and>
           (\<forall>ev\<in>set evs. \<exists>c gc. ev = Exec c {} {} gc \<and> (c = code \<or> c = setup))"
      using j1 j2 by (intro exI [of _ "evs1 @ replicate k (Exec code {} {} False)"]) auto
    have g2: "gc_enabled w2 = gc_enabled w" using m(1) f1 by simp
    show ?thesis
    proof (cases q)
      case (Inl e)
      with run wu None blk have eq: "r = Inr None" "w' = report_error nm e w2"
        by (simp_all add: time_single_snippet_def warmup_def Let_def w0_def)
      show ?thesis using eq g2 jr [of w'] by (simp add: report_error_frame)
    next
      case (Inr ts)
      define self1 where "self1 = (if CHR ''1'' \<in> set nm
                              then self\<lparr>measurements_1 := ts\<rparr>
                              else self\<lparr>measurements_2 := ts\<rparr>)"
      have ts: "ts = map (\<lambda>i. if number > 0
                     then (clock w (ticks w + 2 * i + 1) - clock w (ticks w + 2 * i))
                            / real_of_int number
                     else 0) [0..<nat repeat]"
        using m(6) Inr f1 by simp
      have meas: "(if CHR ''1'' \<in> set nm then measurements_1 self1 else measurements_2 self1) = ts"
        by (simp add: self1_def)
      have tail: "(r, self', w') =
         (case py_mean ts of
            Inl e \<Rightarrow> (Inr None, self1, report_error nm e w2)
          | Inr mean_time \<Rightarrow>
             (case (if length ts > 1 then py_stdev ts else Inr 0) of
                Inl e \<Rightarrow> (Inr None, self1, report_error nm e w2)
              | Inr stdev_time \<Rightarrow> (Inr (Some (mean_time, stdev_time)), self1, w2)))"
        unfolding self1_def using run wu None blk Inr
        by (auto simp add: time_single_snippet_def warmup_def Let_def w0_def
            split: sum.splits if_splits)
      have "self' = self1 \<and> (journal w' = journal w2) \<and> gc_enabled w' = gc_enabled w2 \<and>
            (\<exists>x. r = Inr x)"
        using tail by (auto simp: report_error_frame split: sum.splits if_splits)
      then show ?thesis using g2 jr [of w'] meas ts by auto
    qed
  qed
  from goal show "gc_enabled w' = gc_enabled w"
    and "\<exists>evs. journal w' = journal w @ evs \<and>
           (\<forall>ev\<in>set evs. \<exists>c gc. ev = Exec c {} {} gc \<and> (c = code \<or> c = setup))"
    and "r \<noteq> Inl ZeroDivisionError"
    and "\<forall>m. r = Inr (Some m) \<longrightarrow>
          (if CHR ''1'' \<in> set nm then measurements_1 self' else measurements_2 self') =
          map (\<lambda>i. if number > 0
                     then (clock w (ticks w + 2 * i + 1) - clock w (ticks w + 2 * i))
                            / real_of_int number
                     else 0) [0..<nat repeat]"
    by blast+
qed

subsection \<open>Sample runs\<close>

lemmas run_defs = time_single_snippet_def warmup_def gc_disabled_def suppress_output_def
  print_line_def perf_counter_def py_exec_def py_truediv_def report_error_def
  fresh_def init_def load_code_from_source_def DEFAULT_SETUP_CODE_def DEFAULT_CODE_1_def
  DEFAULT_CODE_2_def noop_def wall_def hidden_def builtins_def Let_def py_mean_def py_stdev_def

lemma noop_run:
  "time_single_snippet (init None None None) ''Snippet 1'' noop (setup_code (init None None None))
      2 2 0 None (fresh wall) =
     (Inr (Some (3 / 2, 0)),
      (init None None None)\<lparr>measurements_1 := [3 / 2, 3 / 2]\<rparr>,
      (fresh wall)\<lparr>console := [Timing ''Snippet 1'' 2], ticks := 4,
                   journal := replicate 4 (Exec noop {} {} False)\<rparr>)"
  by (simp add: run_defs numeral_2_eq_2 numeral_eq_Suc)




lemma noop_run_zero:
  "time_single_snippet (init None None None) ''Snippet 2'' noop (setup_code (init None None None))
      2 0 0 None (fresh wall) =
     (Inr (Some (0, 0)),
      (init None None None)\<lparr>measurements_2 := [0, 0]\<rparr>,
      (fresh wall)\<lparr>console := [Timing ''Snippet 2'' 2], ticks := 4\<rparr>)"
  by (simp add: run_defs numeral_2_eq_2 numeral_eq_Suc)

subsection \<open>The collector switch\<close>



subsection \<open>The elapsed time of a repetition\<close>

text \<open>
  C10: the loop never leaves with \<^verbatim>\<open>ZeroDivisionError\<close>, and when it completes
  the time appended for repetition \<open>i\<close> is \<open>(end - start) / number\<close> for \<open>number > 0\<close>,
  where \<open>start\<close> and \<open>end\<close> are the two clock readings of that repetition, and 0
  otherwise. A successful timing run stores exactly that list in the measurement
  field of the object.
\<close>

theorem elapsed_time_recorded:
  "(timing_loop self code setup number cb reps ts v = (q, v')
      \<longrightarrow> q \<noteq> Inl ZeroDivisionError \<and>
          (\<forall>ts'. q = Inr ts' \<longrightarrow>
             ts' = ts @ map (\<lambda>i. if number > 0
                                   then (clock v (ticks v + 2 * i + 1) - clock v (ticks v + 2 * i))
                                          / real_of_int number
                                   else 0) [0..<length reps])) \<and>
   (time_single_snippet self nm code setup repeat number warmup_runs cb w = (r, self', w')
      \<longrightarrow> r \<noteq> Inl ZeroDivisionError \<and>
          (\<forall>m. r = Inr (Some m) \<longrightarrow>
             (if CHR ''1'' \<in> set nm then measurements_1 self' else measurements_2 self') =
             map (\<lambda>i. if number > 0
                        then (clock w (ticks w + 2 * i + 1) - clock w (ticks w + 2 * i))
                               / real_of_int number
                        else 0) [0..<nat repeat]))"
proof -
  have a: "q \<noteq> Inl ZeroDivisionError \<and>
          (\<forall>ts'. q = Inr ts' \<longrightarrow>
             ts' = ts @ map (\<lambda>i. if number > 0
                                   then (clock v (ticks v + 2 * i + 1) - clock v (ticks v + 2 * i))
                                          / real_of_int number
                                   else 0) [0..<length reps])"
    if "timing_loop self code setup number cb reps ts v = (q, v')"
    using timing_loop_frame [OF that] by auto
  have b: "r \<noteq> Inl ZeroDivisionError \<and>
          (\<forall>m. r = Inr (Some m) \<longrightarrow>
             (if CHR ''1'' \<in> set nm then measurements_1 self' else measurements_2 self') =
             map (\<lambda>i. if number > 0
                        then (clock w (ticks w + 2 * i + 1) - clock w (ticks w + 2 * i))
                               / real_of_int number
                        else 0) [0..<nat repeat])"
    if "time_single_snippet self nm code setup repeat number warmup_runs cb w = (r, self', w')"
    using time_single_snippet_frame(3,4) [OF that] by blast
  from a b show ?thesis by blast
qed


lemma noop_loop:
  "timing_loop (init None None None) noop (setup_code (init None None None)) 2 None
       [0, 1] [] (fresh wall) =
     (Inr [3 / 2, 3 / 2],
      (fresh wall)\<lparr>ticks := 4, journal := replicate 4 (Exec noop {} {} True)\<rparr>)"
  by (simp add: run_defs numeral_2_eq_2 numeral_eq_Suc)

text \<open>
  C10 with a clock that advances 3 per reading: two executions per repetition give
  3 / 2 per repetition, no execution gives 0.
\<close>

theorem elapsed_time_recorded_witness:
  "(\<exists>v'. timing_loop (init None None None) noop (setup_code (init None None None)) 2 None
            [0, 1] [] (fresh wall) = (Inr [3 / 2, 3 / 2], v') \<and>
          [3 / 2, 3 / 2] = map (\<lambda>i. (wall (2 * i + 1) - wall (2 * i)) / 2) [0, 1]) \<and>
   (\<exists>s w'. time_single_snippet (init None None None) ''Snippet 1'' noop
              (setup_code (init None None None)) 2 2 0 None (fresh wall)
             = (Inr (Some (3 / 2, 0)), s, w') \<and>
           measurements_1 s = [(wall 1 - wall 0) / 2, (wall 3 - wall 2) / 2]) \<and>
   (\<exists>s w'. time_single_snippet (init None None None) ''Snippet 2'' noop
              (setup_code (init None None None)) 2 0 0 None (fresh wall)
             = (Inr (Some (0, 0)), s, w') \<and>
           measurements_2 s = [0, 0])"
proof -
  have a: "[3 / 2, 3 / 2] = map (\<lambda>i. (wall (2 * i + 1) - wall (2 * i)) / 2) [0, 1]"
    using elapsed_time_recorded [THEN conjunct1, rule_format, OF noop_loop]
    by (simp add: fresh_def)
  have b: "measurements_1 ((init None None None)\<lparr>measurements_1 := [3 / 2, 3 / 2]\<rparr>)
             = [(wall 1 - wall 0) / 2, (wall 3 - wall 2) / 2]"
    using elapsed_time_recorded [THEN conjunct2, rule_format, OF noop_run,
        THEN conjunct2, rule_format, OF refl]
    by (simp add: fresh_def numeral_2_eq_2 numeral_3_eq_3)
  have c: "measurements_2 ((init None None None)\<lparr>measurements_2 := [0, 0]\<rparr>) = [0, 0]"
    using elapsed_time_recorded [THEN conjunct2, rule_format, OF noop_run_zero,
        THEN conjunct2, rule_format, OF refl]
    by simp
  from a b c noop_loop noop_run noop_run_zero show ?thesis by simp
qed


subsection \<open>Fresh namespaces\<close>



lemma nat_5: "nat 5 = Suc (Suc (Suc (Suc (Suc 0))))"
  by simp

subsection \<open>The seed of a repetition\<close>

text \<open>
  C1, the run that shows the defect: two repetitions of a snippet that needs no name.
  The text \<^verbatim>\<open>local_setup\<close> with the seed \<open>42 + rep\<close> is built and never executed.
  Without warm-up the generator is never seeded and only the snippet is executed; with
  one warm-up round the only seed is the 42 of the unchanged setup code, given before the
  first repetition. The claim asks for the seeds 42 and 43, one before each repetition.
\<close>

theorem seed_never_injected:
  "setup_code (init None None None) = [Import ''random'', Seed 42, Import ''time'', Import ''random''] \<and>
   (\<exists>r s w'. time_single_snippet (init None None None) ''Snippet 1'' noop
                (setup_code (init None None None)) 2 1 0 None (fresh wall) = (r, s, w') \<and>
      seeds w' = [] \<and>
      journal w' = [Exec noop {} {} False, Exec noop {} {} False]) \<and>
   (\<exists>r s w'. time_single_snippet (init None None None) ''Snippet 1'' noop
                (setup_code (init None None None)) 2 1 1 None (fresh wall) = (r, s, w') \<and>
      seeds w' = [42] \<and>
      journal w' = [Exec (setup_code (init None None None)) {} {} True, Exec noop {} {} True,
                    Exec noop {} {} False, Exec noop {} {} False])"
  by (simp add: run_defs numeral_2_eq_2)


lemma five: "(5::nat) = Suc (Suc (Suc (Suc (Suc 0))))"
  by simp

lemma detailed_stats_Nil:
  "detailed_stats [] = Inl (StatisticsError ''mean requires at least one data point'')"
  by (simp add: detailed_stats_def percentiles_of_def py_mean_def)

lemma default_fault_in_warmup:
  "compare_execution (init None None None) reps number 5 None (fresh wall) =
     (Inl (NameError ''random''), init None None None,
      (fresh wall)\<lparr>console := [Starting reps number 5 42, Timing ''Snippet 1'' reps],
                   seeds := [42], ticks := 1,
                   journal := [Exec (setup_code (init None None None)) {} {} True,
                               Exec DEFAULT_CODE_1 {} {} True]\<rparr>)"
proof -
  let ?self = "init None None None"
  define W1 where "W1 = snd (perf_counter (print_line (Starting reps number 5 (fixed_seed ?self)) (fresh wall)))"
  have s1: "time_single_snippet ?self ''Snippet 1'' (code_1 ?self) (setup_code ?self) reps number 5 None W1 =
     (Inl (NameError ''random''), ?self,
      (fresh wall)\<lparr>console := [Starting reps number 5 42, Timing ''Snippet 1'' reps],
                   seeds := [42], ticks := 1,
                   journal := [Exec (setup_code ?self) {} {} True,
                               Exec DEFAULT_CODE_1 {} {} True]\<rparr>)"
    by (simp add: W1_def run_defs five)
  show ?thesis
    by (simp add: compare_execution_def Let_def case_prod_beta s1 [unfolded W1_def])
qed

lemma default_fault_in_loop:
  "compare_execution (init None None None) 3 1 0 None (fresh wall) =
     (Inl (StatisticsError ''mean requires at least one data point''), init None None None,
      (fresh wall)\<lparr>console :=
        [Starting 3 1 0 42,
         Timing ''Snippet 1'' 3, ErrorBanner, ErrorIn ''Snippet 1'',
         ErrorDetails (exn_message (NameError ''random'')), ErrorHint, ErrorRule,
         Timing ''Snippet 2'' 3, ErrorBanner, ErrorIn ''Snippet 2'',
         ErrorDetails (exn_message (NameError ''random'')), ErrorHint, ErrorRule],
                   ticks := 4,
                   journal := [Exec DEFAULT_CODE_1 {} {} False, Exec DEFAULT_CODE_2 {} {} False]\<rparr>)"
proof -
  let ?self = "init None None None"
  define W1 where "W1 = snd (perf_counter (print_line (Starting 3 1 0 (fixed_seed ?self)) (fresh wall)))"
  define W2 where "W2 = (fresh wall)\<lparr>console :=
        [Starting 3 1 0 42,
         Timing ''Snippet 1'' 3, ErrorBanner, ErrorIn ''Snippet 1'',
         ErrorDetails (exn_message (NameError ''random'')), ErrorHint, ErrorRule],
                   ticks := 2,
                   journal := [Exec DEFAULT_CODE_1 {} {} False]\<rparr>"
  define W3 where "W3 = (fresh wall)\<lparr>console :=
        [Starting 3 1 0 42,
         Timing ''Snippet 1'' 3, ErrorBanner, ErrorIn ''Snippet 1'',
         ErrorDetails (exn_message (NameError ''random'')), ErrorHint, ErrorRule,
         Timing ''Snippet 2'' 3, ErrorBanner, ErrorIn ''Snippet 2'',
         ErrorDetails (exn_message (NameError ''random'')), ErrorHint, ErrorRule],
                   ticks := 3,
                   journal := [Exec DEFAULT_CODE_1 {} {} False, Exec DEFAULT_CODE_2 {} {} False]\<rparr>"
  have s1: "time_single_snippet ?self ''Snippet 1'' (code_1 ?self) (setup_code ?self) 3 1 0 None W1 =
     (Inr None, ?self, W2)"
    by (simp add: W1_def W2_def run_defs numeral_3_eq_3)
  have s2: "time_single_snippet ?self ''Snippet 2'' (code_2 ?self) (setup_code ?self) 3 1 0 None W2 =
     (Inr None, ?self, W3)"
    by (simp add: W2_def W3_def run_defs numeral_3_eq_3)
  have m: "measurements_1 ?self = []" "measurements_2 ?self = []"
    by (simp_all add: init_def load_code_from_source_def)
  have fin: "snd (perf_counter W3) = W3\<lparr>ticks := 4\<rparr>" 
    by (simp add: perf_counter_def W3_def fresh_def)
  show ?thesis
    by (simp add: compare_execution_def Let_def case_prod_beta s1 [unfolded W1_def] s2 m
         detailed_stats_Nil fin) (simp add: W3_def)
qed


subsection \<open>A snippet that raises\<close>

text \<open>
  C3, the runs that show the defect, on the default snippets, which raise at every
  execution. With the default parameters (20000 repetitions, 3 executions, 5 warm-up
  rounds) the \<^verbatim>\<open>NameError\<close> of the first warm-up round leaves
  \<^verbatim>\<open>compare_execution\<close> as it is: the handler is not reached and nothing names the
  snippet. Without warm-up the fault is caught and reported for snippet 1, snippet 2 is
  timed all the same, and the comparison ends with the \<^verbatim>\<open>StatisticsError\<close> of
  the empty measurement list.
\<close>

theorem snippet_fault_not_contained:
  "(\<exists>s w'. compare_execution (init None None None) 20000 3 5 None (fresh wall)
             = (Inl (NameError ''random''), s, w') \<and>
      console w' = [Starting 20000 3 5 42, Timing ''Snippet 1'' 20000]) \<and>
   (\<exists>s w'. compare_execution (init None None None) 3 1 0 None (fresh wall)
             = (Inl (StatisticsError ''mean requires at least one data point''), s, w') \<and>
      console w' =
        [Starting 3 1 0 42,
         Timing ''Snippet 1'' 3, ErrorBanner, ErrorIn ''Snippet 1'',
         ErrorDetails (exn_message (NameError ''random'')), ErrorHint, ErrorRule,
         Timing ''Snippet 2'' 3, ErrorBanner, ErrorIn ''Snippet 2'',
         ErrorDetails (exn_message (NameError ''random'')), ErrorHint, ErrorRule] \<and>
      journal w' = [Exec DEFAULT_CODE_1 {} {} False, Exec DEFAULT_CODE_2 {} {} False])"
  by (simp add: default_fault_in_warmup [of 20000 3] default_fault_in_loop)

end
